theory Spec2Isabelle
  imports Complex_Main
begin

section \<open>Data model\<close>

text \<open>
  The Django models of the application (\<^verbatim>\<open>movie/models.py\<close>) are used by the code but are not
  among the files modelled here; the records below list the fields that
  \<^verbatim>\<open>movie/utils.py\<close>, \<^verbatim>\<open>movie/views.py\<close>, \<^verbatim>\<open>movie/serializers.py\<close> and the tests read and
  write. A table (\<^verbatim>\<open>Model.objects\<close>) is the list of its rows in insertion order, a foreign key
  is the primary key of the row it points to, and a nullable foreign key is an option.

  Dates are day numbers (\<open>int\<close>) and a time of day is a number of microseconds since midnight.
  A price is a Python \<^verbatim>\<open>float\<close>, written as the real number it stands for. The addition of
  floats rounds, so it is not the addition of the reals: the functions that add prices take it as
  the parameter \<open>fadd\<close>, of which nothing is assumed.
\<close>

record Screen =
  screen_id :: nat
  screen_number :: int
  total_seat :: int

record ScreenSeatTypesMapping =
  mapping_id :: nat
  mapping_screen :: nat
  seat_type :: string

record Seat =
  seat_id :: nat
  seat_number :: string
  row :: int
  col :: int
  seat_type_id :: nat

record ShowDetail =
  show_id :: nat
  movie :: nat
  show_screen :: nat
  start_time :: int
  end_time :: int
  start_date :: int
  end_date :: int
  available_seats :: int

record ShowSeatPrice =
  price_id :: nat
  price_show_detail :: nat
  price_seat_type :: nat
  price :: real

record BookedShowDetail =
  booked_show_id :: nat
  show_detail :: nat
  show_date :: int
  date_available_seats :: int

text \<open>
  \<open>booked_show\<close> is the foreign key to the \<open>BookedShowDetail\<close> row of the booked date. The test
  helper \<^verbatim>\<open>create_test_booking\<close> passes it to \<^verbatim>\<open>Booking.objects.create\<close>, the view
  \<^verbatim>\<open>BookingViewSet.booking\<close> does not, so the field is taken to be nullable. \<open>seats\<close> is the
  many-to-many relation: a list of distinct seat ids.
\<close>

record Booking =
  booking_id :: nat
  user :: nat
  showtime :: nat
  booked_show :: "nat option"
  total_amount :: real
  seats :: "nat list"

text \<open>The clock: \<^verbatim>\<open>timezone.now()\<close> as a date and a time of day.\<close>

record datetime =
  date :: int
  time :: int

type_synonym cache_key = "nat \<times> int"

text \<open>
  The state: the tables and the Django cache. A cache entry is the key
  \<^verbatim>\<open>available_seats_{show_id}_{YYYYMMDD}\<close> (here the pair of the show id and the date), the
  instant it expires at and the cached value. Django's cache backends pickle what they store, and a
  pickled \<^verbatim>\<open>QuerySet\<close> holds the rows it had when it was pickled: the cached value is the list of
  seats computed at the time of \<^verbatim>\<open>cache.set\<close>. These rows are what the \<^verbatim>\<open>QuerySet\<close> gives to
  \<^verbatim>\<open>count()\<close>, \<^verbatim>\<open>len()\<close> and iteration; a method that derives a new \<^verbatim>\<open>QuerySet\<close> from it, as
  \<^verbatim>\<open>values_list\<close> does, runs the query again.
\<close>

record database =
  Screen_objects :: "Screen list"
  ScreenSeatTypesMapping_objects :: "ScreenSeatTypesMapping list"
  Seat_objects :: "Seat list"
  ShowDetail_objects :: "ShowDetail list"
  ShowSeatPrice_objects :: "ShowSeatPrice list"
  BookedShowDetail_objects :: "BookedShowDetail list"
  Booking_objects :: "Booking list"
  cache :: "(cache_key \<times> int \<times> Seat list) list"

text \<open>The keys of \<^verbatim>\<open>ERROR_MESSAGES\<close> (\<^verbatim>\<open>movie/constants.py\<close>) and the exceptions the code raises.\<close>

datatype message =
  seats_unavailable | invalid_seat_count | show_full | past_show
  | booking_window_expired | invalid_date_range

datatype error =
  ValidationError message
  | SeatsRequired
  | EndDateBeforeStartDate
  | Http404
  | KeyError string
  | IndexError
  | DoesNotExist
  | InvalidPk
  | TypeError

section \<open>Constants (\<^verbatim>\<open>movie/constants.py\<close>)\<close>

definition MIN_SEATS_PER_BOOKING :: nat where
  "MIN_SEATS_PER_BOOKING = 1"

definition MAX_SEATS_PER_BOOKING :: nat where
  "MAX_SEATS_PER_BOOKING = 10"

definition MIN_BOOKING_HOURS_BEFORE :: int where
  "MIN_BOOKING_HOURS_BEFORE = 2"

definition SHOW_CACHE_TIMEOUT :: int where
  "SHOW_CACHE_TIMEOUT = 1800"

section \<open>Time and the cache\<close>

definition combine :: "int \<Rightarrow> int \<Rightarrow> int" where
  \<comment> \<open>\<^verbatim>\<open>datetime.combine(d, t)\<close> as microseconds since day 0\<close>
  "combine d t = d * 86400000000 + t"

definition timestamp :: "datetime \<Rightarrow> int" where
  "timestamp now = combine (date now) (time now)"

definition timedelta_hours :: "int \<Rightarrow> int" where
  "timedelta_hours h = h * 3600000000"

definition cache_get :: "(cache_key \<times> int \<times> Seat list) list \<Rightarrow> datetime \<Rightarrow> cache_key \<Rightarrow> Seat list option" where
  \<comment> \<open>\<^verbatim>\<open>cache.get(key)\<close>: \<open>None\<close> when the key is absent or its entry has expired\<close>
  "cache_get c now k =
     (case map_of c k of
        None \<Rightarrow> None
      | Some (expires, v) \<Rightarrow> if expires \<le> timestamp now then None else Some v)"

definition cache_set :: "(cache_key \<times> int \<times> Seat list) list \<Rightarrow> datetime \<Rightarrow> cache_key \<Rightarrow> Seat list \<Rightarrow> int
    \<Rightarrow> (cache_key \<times> int \<times> Seat list) list" where
  \<comment> \<open>\<^verbatim>\<open>cache.set(key, value, timeout)\<close>, the timeout in seconds; the new entry shadows an older one\<close>
  "cache_set c now k v timeout = (k, (timestamp now + timeout * 1000000, v)) # c"

section \<open>Availability (\<^verbatim>\<open>movie/utils.py\<close>)\<close>

definition booked_show_date :: "database \<Rightarrow> Booking \<Rightarrow> int option" where
  \<comment> \<open>the join \<^verbatim>\<open>booked_show__show_date\<close>: no date for a booking without a \<open>booked_show\<close>\<close>
  "booked_show_date db b =
     (case booked_show b of
        None \<Rightarrow> None
      | Some r \<Rightarrow> map_option show_date (find (\<lambda>x. booked_show_id x = r) (BookedShowDetail_objects db)))"

definition booked_seats :: "database \<Rightarrow> nat \<Rightarrow> int \<Rightarrow> nat list" where
  \<comment> \<open>\<^verbatim>\<open>Booking.objects.filter(showtime_id=show_id, booked_show__show_date=show_date)
        .values_list("seats", flat=True)\<close>\<close>
  "booked_seats db sid d =
     concat (map seats
       (filter (\<lambda>b. showtime b = sid \<and> booked_show_date db b = Some d) (Booking_objects db)))"

definition get_available_seats :: "database \<Rightarrow> datetime \<Rightarrow> nat \<Rightarrow> int \<Rightarrow> Seat list \<times> database" where
  "get_available_seats db now sid d =
     (case cache_get (cache db) now (sid, d) of
        Some cached_seats \<Rightarrow> (cached_seats, db)
      | None \<Rightarrow>
          (let available = filter (\<lambda>x. seat_id x \<notin> set (booked_seats db sid d)) (Seat_objects db)
           in (available,
               db\<lparr>cache := cache_set (cache db) now (sid, d) available SHOW_CACHE_TIMEOUT\<rparr>)))"

text \<open>
  An element of the list \<^verbatim>\<open>seats\<close> as a caller hands it over: an int id, as the annotation
  \<^verbatim>\<open>List[int]\<close> says and as the tests pass it, or a \<open>Seat\<close> instance, as
  \<^verbatim>\<open>BookingViewSet.booking\<close> passes it (the validated data of the serializer's many-to-many
  field). A model instance is not equal to an int.
\<close>

datatype seat_ref = IntId nat | Instance Seat

definition ref_in :: "seat_ref \<Rightarrow> nat list \<Rightarrow> bool" where
  \<comment> \<open>\<^verbatim>\<open>seat_id in ids\<close> for a list of int ids\<close>
  "ref_in r ids = (case r of IntId n \<Rightarrow> n \<in> set ids | Instance x \<Rightarrow> False)"

definition values_list_id :: "database \<Rightarrow> nat \<Rightarrow> int \<Rightarrow> nat list" where
  \<comment> \<open>\<^verbatim>\<open>available_seats.values_list("id", flat=True)\<close>: a new query, that of
      \<^verbatim>\<open>get_available_seats\<close> for the show and the date, run on the tables as they are now,
      whether the \<^verbatim>\<open>QuerySet\<close> came from the cache or not\<close>
  "values_list_id db sid d =
     map seat_id (filter (\<lambda>x. seat_id x \<notin> set (booked_seats db sid d)) (Seat_objects db))"

text \<open>
  \<^verbatim>\<open>validate_booking_request\<close>. Both calls of \<^verbatim>\<open>timezone.now()\<close> and the cache's clock read the
  same instant \<open>now\<close>. The cache is written on a miss also when the request is then rejected.
\<close>

definition validate_booking_request ::
    "database \<Rightarrow> datetime \<Rightarrow> seat_ref list \<Rightarrow> ShowDetail \<Rightarrow> int \<Rightarrow> (error + unit) \<times> database" where
  "validate_booking_request db now seat_refs show d =
     (if \<not> (MIN_SEATS_PER_BOOKING \<le> length seat_refs \<and> length seat_refs \<le> MAX_SEATS_PER_BOOKING)
      then (Inl (ValidationError invalid_seat_count), db)
      else if d < date now
      then (Inl (ValidationError past_show), db)
      else if combine d (start_time show) - timestamp now < timedelta_hours MIN_BOOKING_HOURS_BEFORE
      then (Inl (ValidationError booking_window_expired), db)
      else
        (case get_available_seats db now (show_id show) d of
           (available, db') \<Rightarrow>
             if \<not> list_all (\<lambda>r. ref_in r (values_list_id db' (show_id show) d)) seat_refs
             then (Inl (ValidationError seats_unavailable), db')
             else (Inr (), db')))"

section \<open>Pricing (\<^verbatim>\<open>movie/utils.py\<close>)\<close>

definition type_label :: "database \<Rightarrow> nat \<Rightarrow> string option" where
  \<comment> \<open>the label of a \<open>ScreenSeatTypesMapping\<close> row, by its id\<close>
  "type_label db m =
     map_option seat_type (find (\<lambda>x. mapping_id x = m) (ScreenSeatTypesMapping_objects db))"

definition seat_type_labels :: "database \<Rightarrow> nat list \<Rightarrow> string list" where
  \<comment> \<open>\<^verbatim>\<open>Seat.objects.filter(id__in=seats).values_list("type__seat_type", flat=True)\<close>\<close>
  "seat_type_labels db seat_ids =
     List.map_filter (\<lambda>x. type_label db (seat_type_id x))
       (filter (\<lambda>x. seat_id x \<in> set seat_ids) (Seat_objects db))"

definition show_price_detail :: "database \<Rightarrow> nat \<Rightarrow> ShowSeatPrice list" where
  "show_price_detail db sid = filter (\<lambda>p. price_show_detail p = sid) (ShowSeatPrice_objects db)"

definition price_for :: "database \<Rightarrow> ShowSeatPrice list \<Rightarrow> string \<Rightarrow> real" where
  \<comment> \<open>\<^verbatim>\<open>next((p.price for p in prices if p.seat_type.seat_type == seat_type), 0)\<close>\<close>
  "price_for db prices label =
     (case find (\<lambda>p. type_label db (price_seat_type p) = Some label) prices of
        None \<Rightarrow> 0
      | Some p \<Rightarrow> price p)"

definition id_in :: "seat_ref list \<Rightarrow> error + nat list" where
  \<comment> \<open>the values of the lookup \<^verbatim>\<open>id__in=seats\<close> as the id field prepares them: an int is kept,
      a model instance is not a number\<close>
  "id_in seat_refs =
     (if list_ex (\<lambda>r. case r of IntId n \<Rightarrow> False | Instance x \<Rightarrow> True) seat_refs then Inl TypeError
      else Inr (List.map_filter (\<lambda>r. case r of IntId n \<Rightarrow> Some n | Instance x \<Rightarrow> None) seat_refs))"

definition calculate_total_price ::
    "(real \<Rightarrow> real \<Rightarrow> real) \<Rightarrow> database \<Rightarrow> seat_ref list \<Rightarrow> nat \<Rightarrow> error + real" where
  "calculate_total_price fadd db seat_refs sid =
     (case id_in seat_refs of
        Inl e \<Rightarrow> Inl e
      | Inr seat_ids \<Rightarrow>
          (case find (\<lambda>x. show_id x = sid) (ShowDetail_objects db) of
             None \<Rightarrow> Inl DoesNotExist
           | Some _ \<Rightarrow>
               Inr (foldl (\<lambda>total label. fadd total (price_for db (show_price_detail db sid) label)) 0
                      (seat_type_labels db seat_ids))))"

section \<open>The booking view (\<^verbatim>\<open>movie/views.py\<close>)\<close>

record BookingRequestDict =
  request_seats :: "nat list"
  request_show_date :: "int option"

definition fresh_id :: "nat list \<Rightarrow> nat" where
  \<comment> \<open>the primary key of a new row: one more than the largest in use\<close>
  "fresh_id ids = Suc (fold max ids 0)"

text \<open>
  \<^verbatim>\<open>BookingSerializer\<close> is a model serializer: the primary keys sent under \<^verbatim>\<open>seats\<close> are turned
  into the \<open>Seat\<close> rows they name (a key that names no row is refused), and the serializer's own
  \<^verbatim>\<open>validate\<close> refuses an empty list.
\<close>

definition BookingSerializer_seats :: "database \<Rightarrow> BookingRequestDict \<Rightarrow> error + Seat list" where
  "BookingSerializer_seats db data =
     (if list_ex (\<lambda>pk. find (\<lambda>x. seat_id x = pk) (Seat_objects db) = None) (request_seats data)
      then Inl InvalidPk
      else if request_seats data = [] then Inl SeatsRequired
      else Inr (List.map_filter (\<lambda>pk. find (\<lambda>x. seat_id x = pk) (Seat_objects db))
                  (request_seats data)))"

text \<open>
  \<^verbatim>\<open>BookingViewSet.booking\<close>. \<open>show_date\<close> is not required by the serializer, and reading it from
  the validated data raises \<^verbatim>\<open>KeyError\<close> when it is absent. The view hands the validated seats,
  \<open>Seat\<close> instances, to \<^verbatim>\<open>validate_booking_request\<close> and to \<^verbatim>\<open>calculate_total_price\<close>. The
  booking is created with \<open>user\<close>, \<open>showtime\<close> and \<open>total_amount\<close> only, then its seats are set.
  Every exception is raised before the first write to a table, so the transaction has nothing to
  roll back; a write to the cache is not undone.
\<close>

definition booking ::
    "(real \<Rightarrow> real \<Rightarrow> real) \<Rightarrow> database \<Rightarrow> datetime \<Rightarrow> nat \<Rightarrow> nat \<Rightarrow> BookingRequestDict
      \<Rightarrow> (error + Booking) \<times> database" where
  "booking fadd db now usr sid data =
     (case find (\<lambda>x. show_id x = sid) (ShowDetail_objects db) of
        None \<Rightarrow> (Inl Http404, db)
      | Some show \<Rightarrow>
          (case BookingSerializer_seats db data of
             Inl e \<Rightarrow> (Inl e, db)
           | Inr validated_seats \<Rightarrow>
               (case request_show_date data of
                  None \<Rightarrow> (Inl (KeyError ''show_date''), db)
                | Some d \<Rightarrow>
                    (case validate_booking_request db now (map Instance validated_seats) show d of
                       (Inl e, db1) \<Rightarrow> (Inl e, db1)
                     | (Inr _, db1) \<Rightarrow>
                         (case calculate_total_price fadd db1 (map Instance validated_seats) sid of
                            Inl e \<Rightarrow> (Inl e, db1)
                          | Inr total_price \<Rightarrow>
                              (let b = \<lparr>booking_id = fresh_id (map booking_id (Booking_objects db1)),
                                        user = usr, showtime = sid, booked_show = None,
                                        total_amount = total_price,
                                        seats = remdups (map seat_id validated_seats)\<rparr>
                               in (Inr b, db1\<lparr>Booking_objects := Booking_objects db1 @ [b]\<rparr>)))))))"

text \<open>
  \<^verbatim>\<open>create_test_booking\<close> of \<^verbatim>\<open>movie/tests/test_utils.py\<close>: the other place that creates a
  \<open>Booking\<close>. It names the \<open>BookedShowDetail\<close> row of the date and gives no amount (taken as 0).
\<close>

definition create_test_booking :: "database \<Rightarrow> nat \<Rightarrow> nat \<Rightarrow> nat \<Rightarrow> nat list \<Rightarrow> Booking \<times> database" where
  "create_test_booking db usr sid booked seat_ids =
     (let b = \<lparr>booking_id = fresh_id (map booking_id (Booking_objects db)),
               user = usr, showtime = sid, booked_show = Some booked,
               total_amount = 0, seats = remdups seat_ids\<rparr>
      in (b, db\<lparr>Booking_objects := Booking_objects db @ [b]\<rparr>))"

text \<open>A run of booking requests, one after the other, each with the instant it arrives at.\<close>

fun bookings_run ::
    "(real \<Rightarrow> real \<Rightarrow> real) \<Rightarrow> database \<Rightarrow> (datetime \<times> nat \<times> nat \<times> BookingRequestDict) list
      \<Rightarrow> database" where
  "bookings_run fadd db [] = db"
| "bookings_run fadd db ((now, usr, sid, data) # rest) =
     bookings_run fadd (snd (booking fadd db now usr sid data)) rest"

section \<open>Creating a show (\<^verbatim>\<open>movie/serializers.py\<close>)\<close>

record ShowPriceDict =
  show_price_seat_type :: nat
  show_price_price :: real

text \<open>The validated data of \<^verbatim>\<open>ShowDetailSerializer\<close>; \<open>screen\<close> is the \<open>Screen\<close> row itself.\<close>

record ShowDetailDict =
  data_movie :: nat
  data_screen :: Screen
  data_start_time :: int
  data_end_time :: int
  data_start_date :: int
  data_end_date :: int
  data_show_prices :: "ShowPriceDict list"

definition range :: "int \<Rightarrow> int list" where
  \<comment> \<open>Python's \<^verbatim>\<open>range(n)\<close>\<close>
  "range n = [0..n - 1]"

definition ShowDetailSerializer_validate :: "ShowDetailDict \<Rightarrow> error + ShowDetailDict" where
  "ShowDetailSerializer_validate data =
     (if data_start_date data > data_end_date data then Inl EndDateBeforeStartDate else Inr data)"

definition ShowSeatPrice_create :: "nat \<Rightarrow> ShowPriceDict \<Rightarrow> database \<Rightarrow> database" where
  "ShowSeatPrice_create sid show_price db =
     db\<lparr>ShowSeatPrice_objects := ShowSeatPrice_objects db @
          [\<lparr>price_id = fresh_id (map price_id (ShowSeatPrice_objects db)),
            price_show_detail = sid,
            price_seat_type = show_price_seat_type show_price,
            price = show_price_price show_price\<rparr>]\<rparr>"

definition BookedShowDetail_create :: "nat \<Rightarrow> int \<Rightarrow> int \<Rightarrow> database \<Rightarrow> database" where
  "BookedShowDetail_create sid d available db =
     db\<lparr>BookedShowDetail_objects := BookedShowDetail_objects db @
          [\<lparr>booked_show_id = fresh_id (map booked_show_id (BookedShowDetail_objects db)),
            show_detail = sid, show_date = d, date_available_seats = available\<rparr>]\<rparr>"

definition ShowDetailSerializer_save :: "database \<Rightarrow> ShowDetailDict \<Rightarrow> database" where
  "ShowDetailSerializer_save db validated_data =
     (let screen = data_screen validated_data;
          available = total_seat screen;
          show = \<lparr>show_id = fresh_id (map show_id (ShowDetail_objects db)),
                   movie = data_movie validated_data,
                   show_screen = screen_id screen,
                   start_time = data_start_time validated_data,
                   end_time = data_end_time validated_data,
                   start_date = data_start_date validated_data,
                   end_date = data_end_date validated_data,
                   available_seats = available\<rparr>;
          db1 = db\<lparr>ShowDetail_objects := ShowDetail_objects db @ [show]\<rparr>;
          db2 = fold (ShowSeatPrice_create (show_id show)) (data_show_prices validated_data) db1;
          show_start_date = start_date show;
          show_end_date = end_date show
      in fold (\<lambda>day. BookedShowDetail_create (show_id show) (show_start_date + day) available)
           (range ((show_end_date - show_start_date) + 1)) db2)"

section \<open>Creating a screen (\<^verbatim>\<open>movie/utils.py\<close>, \<^verbatim>\<open>movie/views.py\<close>)\<close>

record SeatTypeDict =
  dict_seat_type :: string
  rows :: int
  columns :: int
  order :: int

text \<open>Python's \<^verbatim>\<open>str\<close> of an integer, for \<^verbatim>\<open>seat_number=f"{i}{j}"\<close>.\<close>

definition digit :: "nat \<Rightarrow> char" where
  "digit n = ''0123456789'' ! n"

function str_nat :: "nat \<Rightarrow> string" where
  "str_nat n = (if n < 10 then [digit n] else str_nat (n div 10) @ [digit (n mod 10)])"
  by pat_completeness auto
termination
  by (relation "measure (\<lambda>n. n)") auto

declare str_nat.simps [simp del]

definition str :: "int \<Rightarrow> string" where
  "str i = (if i < 0 then CHR ''-'' # str_nat (nat (- i)) else str_nat (nat i))"

definition Seat_create :: "string \<Rightarrow> int \<Rightarrow> int \<Rightarrow> nat \<Rightarrow> database \<Rightarrow> database" where
  "Seat_create number r c t db =
     db\<lparr>Seat_objects := Seat_objects db @
          [\<lparr>seat_id = fresh_id (map seat_id (Seat_objects db)),
            seat_number = number, row = r, col = c, seat_type_id = t\<rparr>]\<rparr>"

definition create_type_seats :: "int \<Rightarrow> int \<Rightarrow> int \<Rightarrow> nat \<Rightarrow> database \<Rightarrow> database" where
  \<comment> \<open>the two inner loops: \<^verbatim>\<open>for i in range(rows, type_row): for j in range(type_col)\<close>\<close>
  "create_type_seats rws type_row type_col screen_seat db =
     fold (\<lambda>(i, j). Seat_create (str i @ str j) (rws + i) (j + 1) screen_seat)
       (List.product [rws..type_row - 1] (range type_col)) db"

fun seat_types_loop :: "nat \<Rightarrow> SeatTypeDict list \<Rightarrow> database \<times> int \<times> int \<Rightarrow> database \<times> int \<times> int" where
  "seat_types_loop scr [] acc = acc"
| "seat_types_loop scr (st # rest) (db, rws, seats_total) =
     (let screen_seat = fresh_id (map mapping_id (ScreenSeatTypesMapping_objects db));
          db1 = db\<lparr>ScreenSeatTypesMapping_objects := ScreenSeatTypesMapping_objects db @
                  [\<lparr>mapping_id = screen_seat, mapping_screen = scr,
                    seat_type = dict_seat_type st\<rparr>]\<rparr>;
          type_row = rows st + rws;
          type_col = columns st;
          db2 = create_type_seats rws type_row type_col screen_seat db1
      in seat_types_loop scr rest (db2, type_row, seats_total + rows st * columns st))"

text \<open>
  \<^verbatim>\<open>create_screen_with_seats\<close>. The screen is created first (its \<open>total_seat\<close> is the model's
  default until the loop has run, here 0) and saved with the computed total at the end.
\<close>

definition create_screen_with_seats :: "database \<Rightarrow> int \<Rightarrow> SeatTypeDict list \<Rightarrow> Screen \<times> database" where
  "create_screen_with_seats db number seat_types =
     (let screen = \<lparr>screen_id = fresh_id (map screen_id (Screen_objects db)),
                     screen_number = number, total_seat = 0\<rparr>;
          db1 = db\<lparr>Screen_objects := Screen_objects db @ [screen]\<rparr>
      in case seat_types_loop (screen_id screen) seat_types (db1, 1, 0) of
           (db2, rws, seats_total) \<Rightarrow>
             (screen\<lparr>total_seat := seats_total\<rparr>,
              db2\<lparr>Screen_objects :=
                    map (\<lambda>x. if screen_id x = screen_id screen then screen\<lparr>total_seat := seats_total\<rparr> else x)
                      (Screen_objects db2)\<rparr>))"

definition list_assign :: "'a list \<Rightarrow> int \<Rightarrow> 'a \<Rightarrow> error + 'a list" where
  \<comment> \<open>\<^verbatim>\<open>xs[i] = v\<close> of Python: \<open>-1\<close> is the last slot, an index outside the list raises\<close>
  "list_assign xs i v =
     (if 0 \<le> i \<and> i < int (length xs) then Inr (xs[nat i := v])
      else if i < 0 \<and> - int (length xs) \<le> i then Inr (xs[nat (int (length xs) + i) := v])
      else Inl IndexError)"

fun order_loop :: "SeatTypeDict list \<Rightarrow> SeatTypeDict option list \<Rightarrow> error + SeatTypeDict option list" where
  "order_loop [] ordered = Inr ordered"
| "order_loop (st # rest) ordered =
     (case list_assign ordered (order st - 1) (Some st) of
        Inl e \<Rightarrow> Inl e
      | Inr ordered' \<Rightarrow> order_loop rest ordered')"

definition order_seat_types :: "SeatTypeDict list \<Rightarrow> error + SeatTypeDict option list" where
  \<comment> \<open>a slot that no seat type was written to keeps the placeholder \<^verbatim>\<open>{}\<close>, here \<open>None\<close>\<close>
  "order_seat_types seat_types = order_loop seat_types (replicate (length seat_types) None)"

text \<open>
  \<^verbatim>\<open>ScreenViewSet.create\<close> orders the seat types and creates the screen in one transaction: a
  \<^verbatim>\<open>KeyError\<close> on a placeholder slot leaves the tables as they were.
\<close>

definition ScreenViewSet_create :: "database \<Rightarrow> int \<Rightarrow> SeatTypeDict list \<Rightarrow> (error + Screen) \<times> database" where
  "ScreenViewSet_create db number seat_types =
     (case order_seat_types seat_types of
        Inl e \<Rightarrow> (Inl e, db)
      | Inr seat_types_ordered \<Rightarrow>
          if list_ex (\<lambda>x. x = None) seat_types_ordered then (Inl (KeyError ''seat_type''), db)
          else (case create_screen_with_seats db number (List.map_filter id seat_types_ordered) of
                  (screen, db') \<Rightarrow> (Inr screen, db')))"


section \<open>The seats a show lists (\<^verbatim>\<open>movie/serializers.py\<close>)\<close>

definition seat_screen :: "database \<Rightarrow> Seat \<Rightarrow> nat option" where
  \<comment> \<open>the join \<^verbatim>\<open>type__screen\<close>: the screen of a seat's type\<close>
  "seat_screen db x =
     map_option mapping_screen
       (find (\<lambda>m. mapping_id m = seat_type_id x) (ScreenSeatTypesMapping_objects db))"

definition get_seats :: "database \<Rightarrow> ShowDetail \<Rightarrow> Seat list" where
  \<comment> \<open>\<^verbatim>\<open>ShowDetailSerializer.get_seats\<close>: the seats of the show's screen no booking of the show holds\<close>
  "get_seats db obj =
     (let booked_seat = concat (map seats (filter (\<lambda>b. showtime b = show_id obj) (Booking_objects db)))
      in filter (\<lambda>x. seat_id x \<notin> set booked_seat)
           (filter (\<lambda>x. seat_screen db x = Some (show_screen obj)) (Seat_objects db)))"

section \<open>What the pricing is compared with\<close>

text \<open>
  The prices configured for a seat under a show: those of the show's \<open>ShowSeatPrice\<close> rows whose
  seat type carries the label of the seat's type, in table order. \<open>seat_price\<close> is the first of
  them, and 0 when there is none.
\<close>

definition configured_prices :: "database \<Rightarrow> nat \<Rightarrow> Seat \<Rightarrow> real list" where
  "configured_prices db sid x =
     map price
       (filter (\<lambda>p. price_show_detail p = sid
                  \<and> type_label db (price_seat_type p) = type_label db (seat_type_id x))
          (ShowSeatPrice_objects db))"

definition seat_price :: "database \<Rightarrow> nat \<Rightarrow> Seat \<Rightarrow> real" where
  "seat_price db sid x = (case configured_prices db sid x of [] \<Rightarrow> 0 | v # _ \<Rightarrow> v)"


section \<open>The conservation of seats\<close>



section \<open>The positions a screen's seats get\<close>

text \<open>
  The \<open>(row, col)\<close> pairs that the loops of \<^verbatim>\<open>create_screen_with_seats\<close> assign, as a list:
  \<open>block\<close> holds those of one seat type, given the value of \<^verbatim>\<open>rows\<close> on entry, and \<open>layout\<close>
  those of the seat types that follow one another.
\<close>

definition block :: "int \<Rightarrow> SeatTypeDict \<Rightarrow> (int \<times> int) list" where
  "block rws st =
     map (\<lambda>(i, j). (rws + i, j + 1)) (List.product [rws..rows st + rws - 1] (range (columns st)))"

fun layout :: "int \<Rightarrow> SeatTypeDict list \<Rightarrow> (int \<times> int) list" where
  "layout rws [] = []"
| "layout rws (st # rest) = block rws st @ layout (rows st + rws) rest"

section \<open>An example cinema\<close>

text \<open>
  Two screens: screen 1 with one row of three GOLD seats (ids 1, 2, 3) and screen 2 with a single
  SILVER seat (id 4). Show 1 runs on screen 1 on the days 10 and 11 at 20:00 and has a price for
  GOLD only.
\<close>

definition db_empty :: database where
  "db_empty = \<lparr>Screen_objects = [], ScreenSeatTypesMapping_objects = [], Seat_objects = [],
     ShowDetail_objects = [], ShowSeatPrice_objects = [], BookedShowDetail_objects = [],
     Booking_objects = [], cache = []\<rparr>"

definition screen1 :: Screen where
  "screen1 = \<lparr>screen_id = 1, screen_number = 1, total_seat = 3\<rparr>"

definition show1 :: ShowDetail where
  "show1 = \<lparr>show_id = 1, movie = 1, show_screen = 1, start_time = 72000000000,
     end_time = 79200000000, start_date = 10, end_date = 11, available_seats = 3\<rparr>"

definition show1_data :: ShowDetailDict where
  "show1_data = \<lparr>data_movie = 1, data_screen = screen1, data_start_time = 72000000000,
     data_end_time = 79200000000, data_start_date = 10, data_end_date = 11,
     data_show_prices = [\<lparr>show_price_seat_type = 1, show_price_price = 100\<rparr>]\<rparr>"

definition cinema :: database where
  "cinema = \<lparr>
     Screen_objects = [screen1, \<lparr>screen_id = 2, screen_number = 2, total_seat = 1\<rparr>],
     ScreenSeatTypesMapping_objects =
       [\<lparr>mapping_id = 1, mapping_screen = 1, seat_type = ''GOLD''\<rparr>,
        \<lparr>mapping_id = 2, mapping_screen = 2, seat_type = ''SILVER''\<rparr>],
     Seat_objects =
       [\<lparr>seat_id = 1, seat_number = ''10'', row = 2, col = 1, seat_type_id = 1\<rparr>,
        \<lparr>seat_id = 2, seat_number = ''11'', row = 2, col = 2, seat_type_id = 1\<rparr>,
        \<lparr>seat_id = 3, seat_number = ''12'', row = 2, col = 3, seat_type_id = 1\<rparr>,
        \<lparr>seat_id = 4, seat_number = ''10'', row = 2, col = 1, seat_type_id = 2\<rparr>],
     ShowDetail_objects = [show1],
     ShowSeatPrice_objects =
       [\<lparr>price_id = 1, price_show_detail = 1, price_seat_type = 1, price = 100\<rparr>],
     BookedShowDetail_objects =
       [\<lparr>booked_show_id = 1, show_detail = 1, show_date = 10, date_available_seats = 3\<rparr>,
        \<lparr>booked_show_id = 2, show_detail = 1, show_date = 11, date_available_seats = 3\<rparr>],
     Booking_objects = [],
     cache = []\<rparr>"

definition day9 :: datetime where
  \<comment> \<open>midnight of day 9: 44 hours before the showing of day 10\<close>
  "day9 = \<lparr>date = 9, time = 0\<rparr>"

definition day10_evening :: datetime where
  \<comment> \<open>19:00 of day 10: one hour before the showing\<close>
  "day10_evening = \<lparr>date = 10, time = 68400000000\<rparr>"

definition day9_one_oclock :: datetime where
  \<comment> \<open>01:00 of day 9: an entry cached at midnight has expired\<close>
  "day9_one_oclock = \<lparr>date = 9, time = 3600000000\<rparr>"

definition request_AB :: BookingRequestDict where
  "request_AB = \<lparr>request_seats = [1, 2], request_show_date = Some 10\<rparr>"

definition request_BC :: BookingRequestDict where
  "request_BC = \<lparr>request_seats = [2, 3], request_show_date = Some 10\<rparr>"

definition two_requests :: "(datetime \<times> nat \<times> nat \<times> BookingRequestDict) list" where
  \<comment> \<open>two requests for show 1 on day 10, sent at midnight of day 9 by the users 7 and 8\<close>
  "two_requests = [(day9, 7, 1, request_AB), (day9, 8, 1, request_BC)]"

text \<open>
  The sequence of \<^verbatim>\<open>test_get_available_seats\<close>: the availability of show 1 on day 10 is read
  (and cached), then a booking of seat 1 is created for the \<open>BookedShowDetail\<close> row of that day.
\<close>

definition cinema_stale :: database where
  "cinema_stale = snd (create_test_booking (snd (get_available_seats cinema day9 1 10)) 5 1 1 [1])"


section \<open>Facts shared by the proofs\<close>

lemmas constants_defs = MIN_SEATS_PER_BOOKING_def MAX_SEATS_PER_BOOKING_def
  MIN_BOOKING_HOURS_BEFORE_def SHOW_CACHE_TIMEOUT_def timedelta_hours_def

lemma cinema_created:
  "ShowDetailSerializer_save
     (snd (ScreenViewSet_create
        (snd (ScreenViewSet_create db_empty 1
           [\<lparr>dict_seat_type = ''GOLD'', rows = 1, columns = 3, order = 1\<rparr>]))
        2 [\<lparr>dict_seat_type = ''SILVER'', rows = 1, columns = 1, order = 1\<rparr>]))
     show1_data = cinema"
  by code_simp

lemma seat_type_labels_remdups:
  "seat_type_labels db (remdups seat_ids) = seat_type_labels db seat_ids"
  by (simp add: seat_type_labels_def)

lemma id_in_Id: "id_in (map IntId seat_ids) = Inr seat_ids"
proof -
  have "\<not> list_ex (\<lambda>r. case r of IntId n \<Rightarrow> False | Instance x \<Rightarrow> True) (map IntId seat_ids)"
    by (induction seat_ids) simp_all
  moreover have "List.map_filter (\<lambda>r. case r of IntId n \<Rightarrow> Some n | Instance x \<Rightarrow> None)
      (map IntId seat_ids) = seat_ids"
    by (induction seat_ids) (simp_all add: List.map_filter_simps)
  ultimately show ?thesis
    by (simp add: id_in_def)
qed

lemma get_available_seats_tables:
  "Booking_objects (snd (get_available_seats db now sid d)) = Booking_objects db"
  "BookedShowDetail_objects (snd (get_available_seats db now sid d)) = BookedShowDetail_objects db"
  "Seat_objects (snd (get_available_seats db now sid d)) = Seat_objects db"
  "Screen_objects (snd (get_available_seats db now sid d)) = Screen_objects db"
  "ShowDetail_objects (snd (get_available_seats db now sid d)) = ShowDetail_objects db"
  by (simp_all add: get_available_seats_def Let_def split: option.splits)

lemma booked_show_date_tables:
  assumes "BookedShowDetail_objects db' = BookedShowDetail_objects db"
  shows "booked_show_date db' b = booked_show_date db b"
  using assms by (simp add: booked_show_date_def cong: option.case_cong)

lemma booked_seats_tables:
  assumes "Booking_objects db' = Booking_objects db"
      and "BookedShowDetail_objects db' = BookedShowDetail_objects db"
  shows "booked_seats db' sid d = booked_seats db sid d"
  using assms(1) by (simp add: booked_seats_def booked_show_date_tables [OF assms(2)])

lemma values_list_id_after_read:
  "values_list_id (snd (get_available_seats db now sid d)) sid' d' = values_list_id db sid' d'"
  by (simp add: values_list_id_def get_available_seats_tables
      booked_seats_tables [OF get_available_seats_tables(1,2)])

lemma validate_rule4:
  assumes "1 \<le> length seat_refs" "length seat_refs \<le> 10" "date now \<le> d"
      and "7200000000 \<le> combine d (start_time show) - timestamp now"
  shows "fst (validate_booking_request db now seat_refs show d) =
           (if list_all (\<lambda>r. ref_in r (values_list_id db (show_id show) d)) seat_refs
            then Inr () else Inl (ValidationError seats_unavailable))"
proof -
  obtain available db' where read: "get_available_seats db now (show_id show) d = (available, db')"
    by (cases "get_available_seats db now (show_id show) d")
  have "values_list_id db' (show_id show) d = values_list_id db (show_id show) d"
    using values_list_id_after_read [of db now "show_id show" d "show_id show" d]
    by (simp add: read)
  with assms read show ?thesis
    by (simp add: validate_booking_request_def constants_defs)
qed

lemma validate_tables:
  "Booking_objects (snd (validate_booking_request db now seat_refs show d)) = Booking_objects db"
  "BookedShowDetail_objects (snd (validate_booking_request db now seat_refs show d))
     = BookedShowDetail_objects db"
  "Seat_objects (snd (validate_booking_request db now seat_refs show d)) = Seat_objects db"
  "Screen_objects (snd (validate_booking_request db now seat_refs show d)) = Screen_objects db"
  "ShowDetail_objects (snd (validate_booking_request db now seat_refs show d))
     = ShowDetail_objects db"
  by (auto simp add: validate_booking_request_def get_available_seats_def Let_def
      split: prod.splits option.splits)

lemma instances_not_available:
  assumes "xs \<noteq> []"
  shows "\<not> list_all (\<lambda>r. ref_in r ids) (map Instance xs)"
  using assms by (cases xs) (simp_all add: ref_in_def)

lemma validate_instances:
  assumes "xs \<noteq> []"
  shows "\<exists>e. fst (validate_booking_request db now (map Instance xs) show d) = Inl e"
    and "1 \<le> length xs \<and> length xs \<le> 10 \<and> date now \<le> d
          \<and> 7200000000 \<le> combine d (start_time show) - timestamp now
        \<Longrightarrow> fst (validate_booking_request db now (map Instance xs) show d)
              = Inl (ValidationError seats_unavailable)"
  using instances_not_available [OF assms]
  by (auto simp add: validate_booking_request_def constants_defs split: prod.splits)

lemma map_filter_length:
  assumes "\<not> list_ex (\<lambda>x. f x = None) xs"
  shows "length (List.map_filter f xs) = length xs"
  using assms by (induction xs) (auto simp add: List.map_filter_simps)

lemma BookingSerializer_seats_Inr:
  assumes "BookingSerializer_seats db data = Inr xs"
  shows "xs \<noteq> [] \<and> length xs = length (request_seats data)"
proof -
  from assms have 1: "\<not> list_ex (\<lambda>pk. find (\<lambda>x. seat_id x = pk) (Seat_objects db) = None)
      (request_seats data)" and 2: "request_seats data \<noteq> []"
    and 3: "xs = List.map_filter (\<lambda>pk. find (\<lambda>x. seat_id x = pk) (Seat_objects db))
      (request_seats data)"
    by (auto simp add: BookingSerializer_seats_def split: if_splits)
  from map_filter_length [OF 1] 2 3 show ?thesis
    by auto
qed

lemma booking_rejected:
  "(\<exists>e. fst (booking fadd db now usr sid data) = Inl e)
   \<and> Booking_objects (snd (booking fadd db now usr sid data)) = Booking_objects db
   \<and> BookedShowDetail_objects (snd (booking fadd db now usr sid data)) = BookedShowDetail_objects db
   \<and> Seat_objects (snd (booking fadd db now usr sid data)) = Seat_objects db
   \<and> Screen_objects (snd (booking fadd db now usr sid data)) = Screen_objects db
   \<and> ShowDetail_objects (snd (booking fadd db now usr sid data)) = ShowDetail_objects db"
proof (cases "find (\<lambda>x. show_id x = sid) (ShowDetail_objects db)")
  case None
  then show ?thesis by (simp add: booking_def)
next
  case (Some shw)
  show ?thesis
  proof (cases "BookingSerializer_seats db data")
    case (Inl e)
    with Some show ?thesis by (simp add: booking_def)
  next
    case (Inr xs)
    show ?thesis
    proof (cases "request_show_date data")
      case None
      with Some Inr show ?thesis by (simp add: booking_def)
    next
      case d: (Some d)
      from BookingSerializer_seats_Inr [OF Inr] have "xs \<noteq> []" by simp
      from validate_instances(1) [OF this, of db now shw d]
      obtain e where "fst (validate_booking_request db now (map Instance xs) shw d) = Inl e"
        by blast
      then obtain db1 where v: "validate_booking_request db now (map Instance xs) shw d = (Inl e, db1)"
        by (cases "validate_booking_request db now (map Instance xs) shw d") simp
      have tables: "Booking_objects db1 = Booking_objects db"
        "BookedShowDetail_objects db1 = BookedShowDetail_objects db"
        "Seat_objects db1 = Seat_objects db"
        "Screen_objects db1 = Screen_objects db"
        "ShowDetail_objects db1 = ShowDetail_objects db"
        using validate_tables [of db now "map Instance xs" shw d] by (simp_all add: v)
      from Some Inr d v tables show ?thesis
        by (simp add: booking_def)
    qed
  qed
qed

lemma bookings_run_tables:
  "Booking_objects (bookings_run fadd db requests) = Booking_objects db
   \<and> BookedShowDetail_objects (bookings_run fadd db requests) = BookedShowDetail_objects db
   \<and> Seat_objects (bookings_run fadd db requests) = Seat_objects db
   \<and> Screen_objects (bookings_run fadd db requests) = Screen_objects db
   \<and> ShowDetail_objects (bookings_run fadd db requests) = ShowDetail_objects db"
  by (induction fadd db requests rule: bookings_run.induct) (simp_all add: booking_rejected)

lemma find_filter_head:
  "find P (filter Q xs) = (case filter (\<lambda>x. Q x \<and> P x) xs of [] \<Rightarrow> None | x # _ \<Rightarrow> Some x)"
  by (induction xs) simp_all

lemma price_for_seat_price:
  assumes "type_label db (seat_type_id x) = Some label"
  shows "price_for db (show_price_detail db sid) label = seat_price db sid x"
  using assms
  by (simp add: price_for_def show_price_detail_def seat_price_def configured_prices_def
      find_filter_head split: list.splits)

lemma map_filter_labels:
  assumes "list_all (\<lambda>x. type_label db (seat_type_id x) \<noteq> None) xs"
  shows "map (\<lambda>label. price_for db (show_price_detail db sid) label)
           (List.map_filter (\<lambda>x. type_label db (seat_type_id x)) xs)
         = map (seat_price db sid) xs"
  using assms
proof (induction xs)
  case Nil
  then show ?case by (simp add: List.map_filter_simps)
next
  case (Cons x xs)
  then obtain label where l: "type_label db (seat_type_id x) = Some label" by auto
  with Cons show ?case
    by (simp add: List.map_filter_simps price_for_seat_price [OF l])
qed

lemma map_add_upto: "map (\<lambda>x. s + x) [a..b] = [s + a..s + b]"
proof (induction a b rule: upto.induct)
  case (1 i j)
  show ?case
  proof (cases "i \<le> j")
    case True
    then have "[i..j] = i # [i + 1..j]" "[s + i..s + j] = (s + i) # [s + i + 1..s + j]"
      by (simp_all add: upto_rec1)
    with 1 True show ?thesis by (simp add: add.assoc)
  next
    case False
    then show ?thesis by simp
  qed
qed

lemma fold_ShowSeatPrice_create_tables:
  "ShowDetail_objects (fold (ShowSeatPrice_create sid) ps db) = ShowDetail_objects db
   \<and> BookedShowDetail_objects (fold (ShowSeatPrice_create sid) ps db) = BookedShowDetail_objects db"
  by (induction ps arbitrary: db) (simp_all add: ShowSeatPrice_create_def)

lemma fold_BookedShowDetail_create:
  "ShowDetail_objects (fold (\<lambda>day. BookedShowDetail_create sid (s + day) a) days db)
     = ShowDetail_objects db
   \<and> (\<exists>rs. BookedShowDetail_objects (fold (\<lambda>day. BookedShowDetail_create sid (s + day) a) days db)
            = BookedShowDetail_objects db @ rs
          \<and> map show_date rs = map (\<lambda>day. s + day) days
          \<and> list_all (\<lambda>r. show_detail r = sid \<and> date_available_seats r = a) rs)"
proof (induction days arbitrary: db)
  case Nil
  then show ?case by simp
next
  case (Cons day days)
  from Cons [of "BookedShowDetail_create sid (s + day) a db"]
  show ?case
    by (auto simp add: BookedShowDetail_create_def)
qed

lemma fold_Seat_create:
  "\<exists>new. Seat_objects (fold (\<lambda>(i, j). Seat_create (f i j) (g i) (h j) m) ps db)
           = Seat_objects db @ new
     \<and> map (\<lambda>x. (row x, col x)) new = map (\<lambda>(i, j). (g i, h j)) ps"
proof (induction ps arbitrary: db)
  case Nil
  then show ?case by simp
next
  case (Cons p ps)
  obtain i j where p: "p = (i, j)" by (cases p)
  from Cons [of "Seat_create (f i j) (g i) (h j) m db"]
  show ?case by (auto simp add: p Seat_create_def)
qed

lemma fold_Seat_create_tables:
  "Screen_objects (fold (\<lambda>(i, j). Seat_create (f i j) (g i) (h j) m) ps db) = Screen_objects db"
  by (induction ps arbitrary: db) (auto simp add: Seat_create_def)

lemma seat_types_loop_result:
  "\<exists>db' new. seat_types_loop scr sts (db, rws, tot) =
       (db', rws + (\<Sum>st \<leftarrow> sts. rows st), tot + (\<Sum>st \<leftarrow> sts. rows st * columns st))
     \<and> Seat_objects db' = Seat_objects db @ new
     \<and> Screen_objects db' = Screen_objects db
     \<and> map (\<lambda>x. (row x, col x)) new = layout rws sts"
proof (induction sts arbitrary: db rws tot)
  case Nil
  then show ?case by simp
next
  case (Cons st sts)
  define m where "m = fresh_id (map mapping_id (ScreenSeatTypesMapping_objects db))"
  define db1 where "db1 = db\<lparr>ScreenSeatTypesMapping_objects := ScreenSeatTypesMapping_objects db @
      [\<lparr>mapping_id = m, mapping_screen = scr, seat_type = dict_seat_type st\<rparr>]\<rparr>"
  define db2 where "db2 = create_type_seats rws (rows st + rws) (columns st) m db1"
  from fold_Seat_create [of "\<lambda>i j. str i @ str j" "\<lambda>i. rws + i" "\<lambda>j. j + 1" m
      "List.product [rws..rows st + rws - 1] (range (columns st))" db1]
  obtain new1 where new1: "Seat_objects db2 = Seat_objects db @ new1"
    "map (\<lambda>x. (row x, col x)) new1 = block rws st"
    by (auto simp add: db2_def create_type_seats_def db1_def block_def)
  have scr2: "Screen_objects db2 = Screen_objects db"
    by (simp add: db2_def create_type_seats_def fold_Seat_create_tables db1_def)
  from Cons [of db2 "rows st + rws" "tot + rows st * columns st"]
  obtain db' new where rest:
    "seat_types_loop scr sts (db2, rows st + rws, tot + rows st * columns st) =
       (db', rows st + rws + (\<Sum>st \<leftarrow> sts. rows st),
        tot + rows st * columns st + (\<Sum>st \<leftarrow> sts. rows st * columns st))"
    "Seat_objects db' = Seat_objects db2 @ new"
    "Screen_objects db' = Screen_objects db2"
    "map (\<lambda>x. (row x, col x)) new = layout (rows st + rws) sts"
    by blast
  have step: "seat_types_loop scr (st # sts) (db, rws, tot) =
      seat_types_loop scr sts (db2, rows st + rws, tot + rows st * columns st)"
    by (simp add: Let_def db2_def db1_def m_def)
  have loop: "seat_types_loop scr (st # sts) (db, rws, tot) =
      (db', rws + (\<Sum>st \<leftarrow> st # sts. rows st),
       tot + (\<Sum>st \<leftarrow> st # sts. rows st * columns st))"
    unfolding step rest(1) by (simp add: algebra_simps)
  have seats: "Seat_objects db' = Seat_objects db @ (new1 @ new)"
    using rest(2) new1(1) by simp
  have positions: "map (\<lambda>x. (row x, col x)) (new1 @ new) = layout rws (st # sts)"
    using rest(4) new1(2) by simp
  have screens: "Screen_objects db' = Screen_objects db"
    using rest(3) scr2 by simp
  show ?case
    by (rule exI [of _ db'], rule exI [of _ "new1 @ new"])
      (rule conjI loop seats screens positions)+
qed

lemma length_layout:
  assumes "list_all (\<lambda>st. 0 \<le> rows st \<and> 0 \<le> columns st) sts"
  shows "int (length (layout rws sts)) = (\<Sum>st \<leftarrow> sts. rows st * columns st)"
  using assms
proof (induction sts arbitrary: rws)
  case Nil
  then show ?case by simp
next
  case (Cons st sts)
  then have "0 \<le> rows st" "0 \<le> columns st" by simp_all
  then have "int (length (block rws st)) = rows st * columns st"
    by (simp add: block_def range_def nat_mult_distrib)
  with Cons show ?case by simp
qed

lemma block_rows:
  assumes "(a, b) \<in> set (block rws st)"
  shows "2 * rws \<le> a \<and> a \<le> 2 * rws + rows st - 1"
  using assms by (auto simp add: block_def)

lemma distinct_block: "distinct (block rws st)"
proof -
  have "inj_on (\<lambda>(i, j). (rws + i, j + 1)) A" for A :: "(int \<times> int) set"
    by (auto simp add: inj_on_def)
  then show ?thesis
    by (simp add: block_def distinct_map distinct_product range_def)
qed

lemma layout_rows_lower:
  assumes "list_all (\<lambda>st. 0 \<le> rows st \<and> 0 \<le> columns st) sts" "(a, b) \<in> set (layout rws sts)"
  shows "2 * rws \<le> a"
  using assms
proof (induction sts arbitrary: rws)
  case Nil
  then show ?case by simp
next
  case (Cons st sts)
  from Cons.prems(2)
  have "(a, b) \<in> set (block rws st) \<or> (a, b) \<in> set (layout (rows st + rws) sts)"
    by (simp only: layout.simps set_append Un_iff)
  then show ?case
  proof
    assume "(a, b) \<in> set (block rws st)"
    then show ?thesis using block_rows by blast
  next
    assume "(a, b) \<in> set (layout (rows st + rws) sts)"
    with Cons.IH [of "rows st + rws"] Cons.prems(1)
    have "2 * (rows st + rws) \<le> a" "0 \<le> rows st"
      by simp_all
    then show ?thesis by arith
  qed
qed

lemma distinct_layout:
  assumes "list_all (\<lambda>st. 0 \<le> rows st \<and> 0 \<le> columns st) sts"
  shows "distinct (layout rws sts)"
  using assms
proof (induction sts arbitrary: rws)
  case Nil
  then show ?case by simp
next
  case (Cons st sts)
  have rest: "list_all (\<lambda>st. 0 \<le> rows st \<and> 0 \<le> columns st) sts" and r: "0 \<le> rows st"
    using Cons.prems by simp_all
  have "False"
    if 1: "(a, b) \<in> set (block rws st)" and 2: "(a, b) \<in> set (layout (rows st + rws) sts)"
    for a b
  proof -
    from block_rows [OF 1] have "a \<le> 2 * rws + rows st - 1" by simp
    moreover from layout_rows_lower [OF rest 2] have "2 * (rows st + rws) \<le> a" .
    ultimately show False using r by arith
  qed
  then have "set (block rws st) \<inter> set (layout (rows st + rws) sts) = {}"
    by auto
  with Cons.IH [OF rest, of "rows st + rws"] distinct_block [of rws st] show ?case
    by (simp only: layout.simps distinct_append)
qed











section \<open>Double booking\<close>

text \<open>
  Claim C1: whatever booking requests are sent, no seat comes to be held by two bookings of the
  same show and date. The view commits nothing (it hands \<open>Seat\<close> instances to the validation,
  whose rule 4 compares them with int ids), so a run of requests leaves the table of bookings as
  it was: if the seats booked for a show and a date were pairwise distinct before the run, they
  are after it.
\<close>

theorem bookings_run_no_double_booking:
  "Booking_objects (bookings_run fadd db requests) = Booking_objects db
   \<and> (distinct (booked_seats db sid d)
        \<longrightarrow> distinct (booked_seats (bookings_run fadd db requests) sid d))"
  using booked_seats_tables [of "bookings_run fadd db requests" db sid d]
    bookings_run_tables [of fadd db requests]
  by simp

text \<open>
  Witness for C1: in the state of the test sequence seat 1 is booked for show 1 on day 10. The
  requests for the seats 1, 2 and for the seats 2, 3 of that show and day add no booking.
\<close>

theorem bookings_run_no_double_booking_witness:
  "booked_seats cinema_stale 1 10 = [1]
   \<and> distinct (booked_seats cinema_stale 1 10)
   \<and> Booking_objects (bookings_run (+) cinema_stale two_requests) = Booking_objects cinema_stale
   \<and> distinct (booked_seats (bookings_run (+) cinema_stale two_requests) 1 10)"
proof -
  have h: "booked_seats cinema_stale 1 10 = [1]" "distinct (booked_seats cinema_stale 1 10)"
    by code_simp+
  from bookings_run_no_double_booking [of "(+)" cinema_stale two_requests 1 10] h
  show ?thesis
    by blast
qed

section \<open>The cache after a booking\<close>

text \<open>
  Claim C4 (after a booking the cache entry is invalidated or refreshed, so that the next
  availability read shows the booked seats consumed) fails on the code. The only bookings that
  come to exist are created as the test helper does; in the sequence of
  \<^verbatim>\<open>test_get_available_seats\<close> (read, book seat 1 for the day, read again) the second read
  returns the cached rows, seat 1 included, while the query on the tables gives the seats
  2, 3 and 4. No code deletes or rewrites the entry.
\<close>

theorem availability_after_test_booking_is_stale:
  "cinema_stale = snd (create_test_booking (snd (get_available_seats cinema day9 1 10)) 5 1 1 [1])
   \<and> booked_seats cinema_stale 1 10 = [1]
   \<and> map seat_id (fst (get_available_seats cinema_stale day9 1 10)) = [1, 2, 3, 4]
   \<and> values_list_id cinema_stale 1 10 = [2, 3, 4]"
  by code_simp

section \<open>Availability on a cache miss\<close>

text \<open>
  Claim C5 (on a miss, the seats returned are seats of the show's screen) fails on the code:
  \<open>get_available_seats\<close> filters \<open>Seat.objects\<close>, the seats of every screen. For show 1, which
  runs on screen 1, it returns seat 4 of screen 2. \<open>get_seats\<close> of the show serializer keeps to
  the show's screen.
\<close>

theorem get_available_seats_other_screen:
  "cache_get (cache cinema) day9 (1, 10) = None
   \<and> map seat_id (fst (get_available_seats cinema day9 1 10)) = [1, 2, 3, 4]
   \<and> map (seat_screen cinema) (fst (get_available_seats cinema day9 1 10)) =
       [Some 1, Some 1, Some 1, Some 2]
   \<and> show_screen show1 = 1
   \<and> map seat_id (get_seats cinema show1) = [1, 2, 3]"
  by code_simp

section \<open>The order of the validation rules\<close>

text \<open>
  Claim C6: validation applies its rules in the order seat count, past show, booking window, seat
  availability, and the first rule that fails gives the error. A request whose seat count is out
  of bounds (fewer than 1 or more than 10 seats) is rejected with \<open>invalid_seat_count\<close> whatever
  the date and the time are; the first three rules leave the state as it was. The fourth rule
  passes when every element of the list is the int id of a stored seat that no booking of the
  show and the date holds.
\<close>

theorem validate_booking_request_order:
  "(length seat_refs < 1 \<or> 10 < length seat_refs \<longrightarrow>
      validate_booking_request db now seat_refs show d =
        (Inl (ValidationError invalid_seat_count), db))
   \<and> (1 \<le> length seat_refs \<and> length seat_refs \<le> 10 \<and> d < date now \<longrightarrow>
      validate_booking_request db now seat_refs show d = (Inl (ValidationError past_show), db))
   \<and> (1 \<le> length seat_refs \<and> length seat_refs \<le> 10 \<and> date now \<le> d \<and>
        combine d (start_time show) - timestamp now < 7200000000 \<longrightarrow>
      validate_booking_request db now seat_refs show d =
        (Inl (ValidationError booking_window_expired), db))
   \<and> (1 \<le> length seat_refs \<and> length seat_refs \<le> 10 \<and> date now \<le> d \<and>
        7200000000 \<le> combine d (start_time show) - timestamp now \<longrightarrow>
      fst (validate_booking_request db now seat_refs show d) =
        (if list_all
              (\<lambda>r. case r of
                      IntId n \<Rightarrow> n \<in> seat_id ` {x \<in> set (Seat_objects db).
                                 seat_id x \<notin> set (booked_seats db (show_id show) d)}
                    | Instance x \<Rightarrow> False)
              seat_refs
         then Inr () else Inl (ValidationError seats_unavailable)))"
proof -
  have rule4: "ref_in r (values_list_id db (show_id show) d) =
      (case r of
         IntId n \<Rightarrow> n \<in> seat_id ` {x \<in> set (Seat_objects db).
                    seat_id x \<notin> set (booked_seats db (show_id show) d)}
       | Instance x \<Rightarrow> False)" for r
    by (cases r) (auto simp add: ref_in_def values_list_id_def)
  have "1 \<le> length seat_refs \<and> length seat_refs \<le> 10 \<and> date now \<le> d \<and>
        7200000000 \<le> combine d (start_time show) - timestamp now \<longrightarrow>
      fst (validate_booking_request db now seat_refs show d) =
        (if list_all (\<lambda>r. ref_in r (values_list_id db (show_id show) d)) seat_refs
         then Inr () else Inl (ValidationError seats_unavailable))"
    using validate_rule4 [of seat_refs now d "show" db] by blast
  then show ?thesis
    unfolding rule4
    by (auto simp add: validate_booking_request_def constants_defs)
qed

text \<open>
  Witness for C6: eleven seats, one hour before the showing. Both the seat count and the booking
  window are violated, and the error is \<open>invalid_seat_count\<close>.
\<close>

theorem validate_booking_request_order_witness:
  "10 < length (replicate 11 (IntId 1))
   \<and> combine 10 (start_time show1) - timestamp day10_evening < 7200000000
   \<and> validate_booking_request cinema day10_evening (replicate 11 (IntId 1)) show1 10 =
       (Inl (ValidationError invalid_seat_count), cinema)"
  using validate_booking_request_order
    [where seat_refs = "replicate 11 (IntId 1)" and db = cinema and now = day10_evening
       and ?show = show1 and d = 10]
  by (simp add: combine_def timestamp_def show1_def day10_evening_def)

section \<open>Pricing and duplicate seat ids\<close>

lemma calculate_total_price_Id:
  "calculate_total_price fadd db (map IntId seat_ids) sid =
     (case find (\<lambda>x. show_id x = sid) (ShowDetail_objects db) of
        None \<Rightarrow> Inl DoesNotExist
      | Some _ \<Rightarrow>
          Inr (foldl (\<lambda>total label. fadd total (price_for db (show_price_detail db sid) label)) 0
                 (seat_type_labels db seat_ids)))"
  by (simp add: calculate_total_price_def id_in_Id)

text \<open>
  Claim C10: the total of a list of seat ids is the total of its distinct ids, while the
  seat-count rule of the validator counts every entry of the list: a list of more than ten
  entries is rejected with \<open>invalid_seat_count\<close> however few distinct ids it holds.
\<close>

theorem calculate_total_price_duplicates:
  "calculate_total_price fadd db (map IntId seat_ids) sid =
     calculate_total_price fadd db (map IntId (remdups seat_ids)) sid
   \<and> (10 < length seat_ids \<longrightarrow>
        fst (validate_booking_request db now (map IntId seat_ids) show d) =
          Inl (ValidationError invalid_seat_count))"
  by (simp add: calculate_total_price_Id seat_type_labels_remdups validate_booking_request_def
      constants_defs cong: option.case_cong)

text \<open>
  Witness for C10: eleven copies of seat 1 cost what seat 1 costs, and are rejected by the
  seat-count rule, which accepts the list of the one distinct id.
\<close>

theorem calculate_total_price_duplicates_witness:
  "10 < length (replicate 11 (1::nat))
   \<and> calculate_total_price (+) cinema (map IntId (replicate 11 1)) 1 =
       calculate_total_price (+) cinema (map IntId [1]) 1
   \<and> calculate_total_price (+) cinema (map IntId [1]) 1 = Inr 100
   \<and> fst (validate_booking_request cinema day9 (map IntId (replicate 11 1)) show1 10) =
       Inl (ValidationError invalid_seat_count)
   \<and> fst (validate_booking_request cinema day9 (map IntId [1]) show1 10) = Inr ()"
proof -
  have evaluated:
    "remdups (replicate 11 (1::nat)) = [1]"
    "calculate_total_price (+) cinema (map IntId [1]) 1 = Inr 100"
    "fst (validate_booking_request cinema day9 (map IntId [1]) show1 10) = Inr ()"
    by code_simp+
  show ?thesis
    using evaluated
      calculate_total_price_duplicates
        [where seat_ids = "replicate 11 1" and db = cinema and sid = 1 and now = day9
           and ?show = show1 and d = 10 and fadd = "(+)"]
    by simp
qed

section \<open>The remaining count of a date\<close>



section \<open>Screen layout\<close>

text \<open>
  Claim C8 (rows are laid out contiguously across seat types, starting at row 1) fails on the
  code: a seat's row is \<open>rows + i\<close>, where \<open>i\<close> already starts at \<open>rows\<close>. Two seat types of one
  row and one column each give the rows 2 and 4, while the seat numbers are built from the
  intended rows 1 and 2.
\<close>

theorem create_screen_rows_not_contiguous:
  "map (\<lambda>x. (seat_number x, row x, col x))
     (Seat_objects (snd (ScreenViewSet_create db_empty 1
        [\<lparr>dict_seat_type = ''PLATINUM'', rows = 1, columns = 1, order = 1\<rparr>,
         \<lparr>dict_seat_type = ''GOLD'', rows = 1, columns = 1, order = 2\<rparr>]))) =
     [(''10'', 2, 1), (''20'', 4, 1)]"
  by code_simp


section \<open>The availability check of a booking\<close>

text \<open>
  Claim C2: a request that names a seat already booked for the show and the date is rejected and
  no booking is created, whatever the cache holds: rule 4 of the validation runs its query on the
  tables. The view's request is rejected in any case; once the seat count and the two time rules
  pass, the error is \<open>seats_unavailable\<close>, for the view (given seats that exist) and for the
  validation of the int ids themselves.
\<close>

theorem booking_rejects_booked_seat:
  assumes "find (\<lambda>x. show_id x = sid) (ShowDetail_objects db) = Some show"
      and "request_show_date data = Some d"
      and "\<exists>i \<in> set (request_seats data). i \<in> set (booked_seats db sid d)"
  shows "(\<exists>e. fst (booking fadd db now usr sid data) = Inl e)
       \<and> Booking_objects (snd (booking fadd db now usr sid data)) = Booking_objects db
       \<and> (1 \<le> length (request_seats data) \<and> length (request_seats data) \<le> 10 \<and> date now \<le> d
            \<and> 7200000000 \<le> combine d (start_time show) - timestamp now
          \<longrightarrow> fst (validate_booking_request db now (map IntId (request_seats data)) show d)
                = Inl (ValidationError seats_unavailable))
       \<and> (1 \<le> length (request_seats data) \<and> length (request_seats data) \<le> 10 \<and> date now \<le> d
            \<and> 7200000000 \<le> combine d (start_time show) - timestamp now
            \<and> list_all (\<lambda>pk. pk \<in> seat_id ` set (Seat_objects db)) (request_seats data)
          \<longrightarrow> fst (booking fadd db now usr sid data) = Inl (ValidationError seats_unavailable))"
proof -
  have sid: "show_id show = sid"
    using assms(1) by (auto simp add: find_Some_iff)
  from assms(3) obtain i where i: "i \<in> set (request_seats data)" "i \<in> set (booked_seats db sid d)"
    by blast
  have "\<not> ref_in (IntId i) (values_list_id db sid d)"
    using i(2) by (auto simp add: ref_in_def values_list_id_def)
  then have unavailable:
    "\<not> list_all (\<lambda>r. ref_in r (values_list_id db (show_id show) d)) (map IntId (request_seats data))"
    using i(1) sid by (auto simp add: list_all_iff)
  have ids: "1 \<le> length (request_seats data) \<and> length (request_seats data) \<le> 10 \<and> date now \<le> d
        \<and> 7200000000 \<le> combine d (start_time show) - timestamp now
      \<longrightarrow> fst (validate_booking_request db now (map IntId (request_seats data)) show d)
            = Inl (ValidationError seats_unavailable)"
    using validate_rule4 [of "map IntId (request_seats data)" now d "show" db] unavailable
    by simp
  have view: "fst (booking fadd db now usr sid data) = Inl (ValidationError seats_unavailable)"
    if rules: "1 \<le> length (request_seats data)" "length (request_seats data) \<le> 10" "date now \<le> d"
      "7200000000 \<le> combine d (start_time show) - timestamp now"
    and stored: "list_all (\<lambda>pk. pk \<in> seat_id ` set (Seat_objects db)) (request_seats data)"
  proof -
    have "\<not> list_ex (\<lambda>pk. find (\<lambda>x. seat_id x = pk) (Seat_objects db) = None) (request_seats data)"
      using stored by (auto simp add: list_all_iff list_ex_iff find_None_iff)
    moreover have "request_seats data \<noteq> []"
      using rules(1) by auto
    ultimately obtain xs where xs: "BookingSerializer_seats db data = Inr xs"
      by (simp add: BookingSerializer_seats_def)
    from BookingSerializer_seats_Inr [OF xs] rules
    have "xs \<noteq> []" "1 \<le> length xs \<and> length xs \<le> 10 \<and> date now \<le> d
        \<and> 7200000000 \<le> combine d (start_time show) - timestamp now"
      by simp_all
    from validate_instances(2) [OF this]
    have "fst (validate_booking_request db now (map Instance xs) show d)
        = Inl (ValidationError seats_unavailable)" .
    then obtain db1 where "validate_booking_request db now (map Instance xs) show d
        = (Inl (ValidationError seats_unavailable), db1)"
      by (cases "validate_booking_request db now (map Instance xs) show d") simp
    with assms(1,2) xs show ?thesis
      by (simp add: booking_def)
  qed
  from booking_rejected [of fadd db now usr sid data] ids view show ?thesis
    by blast
qed

text \<open>
  Witness for C2: in the state of the test sequence seat 1 is booked for show 1 on day 10 while
  the live cache entry of that key still lists it. The request for the seats 1 and 2 is rejected
  with \<open>seats_unavailable\<close> and no booking is added.
\<close>

theorem booking_rejects_booked_seat_witness:
  "find (\<lambda>x. show_id x = 1) (ShowDetail_objects cinema_stale) = Some show1
   \<and> request_show_date request_AB = Some 10
   \<and> 1 \<in> set (request_seats request_AB)
   \<and> 1 \<in> set (booked_seats cinema_stale 1 10)
   \<and> map_option (map seat_id) (cache_get (cache cinema_stale) day9 (1, 10)) = Some [1, 2, 3, 4]
   \<and> fst (validate_booking_request cinema_stale day9 (map IntId (request_seats request_AB)) show1 10)
       = Inl (ValidationError seats_unavailable)
   \<and> fst (booking (+) cinema_stale day9 7 1 request_AB) = Inl (ValidationError seats_unavailable)
   \<and> Booking_objects (snd (booking (+) cinema_stale day9 7 1 request_AB)) =
       Booking_objects cinema_stale"
proof -
  have h1: "find (\<lambda>x. show_id x = 1) (ShowDetail_objects cinema_stale) = Some show1"
    by code_simp
  have h2: "request_show_date request_AB = Some 10"
    by code_simp
  have m1: "1 \<in> set (request_seats request_AB)" and m2: "1 \<in> set (booked_seats cinema_stale 1 10)"
    by code_simp+
  from m1 m2 have h3: "\<exists>i \<in> set (request_seats request_AB). i \<in> set (booked_seats cinema_stale 1 10)"
    by blast
  have cached: "map_option (map seat_id) (cache_get (cache cinema_stale) day9 (1, 10))
      = Some [1, 2, 3, 4]"
    by code_simp
  have rules: "1 \<le> length (request_seats request_AB) \<and> length (request_seats request_AB) \<le> 10
      \<and> date day9 \<le> 10
      \<and> 7200000000 \<le> combine 10 (start_time show1) - timestamp day9
      \<and> list_all (\<lambda>pk. pk \<in> seat_id ` set (Seat_objects cinema_stale)) (request_seats request_AB)"
    by code_simp
  from booking_rejects_booked_seat [OF h1 h2 h3, of "(+)" day9 7] rules h1 h2 m1 m2 cached
  show ?thesis
    by blast
qed

section \<open>The total price\<close>

text \<open>
  Counterexample for C9 (a seat whose type has no price for the show makes the calculation fail
  with MissingPrice). Seat 4 is a SILVER seat and show 1 has a price for GOLD only: the total of
  seat 4 is 0, and the total of the seats 1 and 4 is the price of seat 1. (The additions made
  here, 0 + 0 and 0 + 100 + 0, are exact for floats.)
\<close>

theorem missing_price_counts_zero:
  "seat_type_labels cinema [4] = [''SILVER'']
   \<and> map (\<lambda>p. type_label cinema (price_seat_type p)) (show_price_detail cinema 1) = [Some ''GOLD'']
   \<and> calculate_total_price (+) cinema [IntId 4] 1 = Inr 0
   \<and> calculate_total_price (+) cinema [IntId 1, IntId 4] 1 = Inr 100"
  by code_simp

text \<open>
  Claim C9 as amended: for a show that exists (and seats whose type rows exist), the total of a
  list of seat ids is what the float addition accumulates from 0, over the stored seats whose id
  is in the list and in their table order, of the first price configured for the show under the
  seat type's label, and of 0 for a seat with no such price. The calculation does not fail for a
  missing price. The addition is any function \<open>fadd\<close>.
\<close>

theorem calculate_total_price_sum:
  assumes "find (\<lambda>x. show_id x = sid) (ShowDetail_objects db) \<noteq> None"
      and "list_all (\<lambda>x. type_label db (seat_type_id x) \<noteq> None) (Seat_objects db)"
  shows "calculate_total_price fadd db (map IntId seat_ids) sid =
           Inr (foldl fadd 0
                  (map (seat_price db sid)
                     (filter (\<lambda>x. seat_id x \<in> set seat_ids) (Seat_objects db))))"
proof -
  have "list_all (\<lambda>x. type_label db (seat_type_id x) \<noteq> None)
          (filter (\<lambda>x. seat_id x \<in> set seat_ids) (Seat_objects db))"
    using assms(2) by (simp add: list_all_iff)
  from map_filter_labels [OF this, of sid]
  have "foldl fadd 0 (map (\<lambda>label. price_for db (show_price_detail db sid) label)
          (seat_type_labels db seat_ids))
      = foldl fadd 0 (map (seat_price db sid)
          (filter (\<lambda>x. seat_id x \<in> set seat_ids) (Seat_objects db)))"
    by (simp add: seat_type_labels_def)
  with assms(1) show ?thesis
    by (auto simp add: calculate_total_price_Id foldl_map)
qed

text \<open>
  Witness for C9 as amended: the seats 1, 2 and 4 of the example cost 100 + 100 + 0.
\<close>

theorem calculate_total_price_sum_witness:
  "find (\<lambda>x. show_id x = 1) (ShowDetail_objects cinema) \<noteq> None
   \<and> list_all (\<lambda>x. type_label cinema (seat_type_id x) \<noteq> None) (Seat_objects cinema)
   \<and> map (seat_price cinema 1) (Seat_objects cinema) = [100, 100, 100, 0]
   \<and> calculate_total_price (+) cinema (map IntId [1, 2, 4]) 1 = Inr 200"
proof -
  have h1: "find (\<lambda>x. show_id x = 1) (ShowDetail_objects cinema) \<noteq> None"
    by code_simp
  have h2: "list_all (\<lambda>x. type_label cinema (seat_type_id x) \<noteq> None) (Seat_objects cinema)"
    by code_simp
  have prices: "map (seat_price cinema 1) (Seat_objects cinema) = [100, 100, 100, 0]"
    by code_simp
  have total: "foldl (+) 0 (map (seat_price cinema 1)
      (filter (\<lambda>x. seat_id x \<in> set [1, 2, 4]) (Seat_objects cinema))) = 200"
    by code_simp
  from calculate_total_price_sum [OF h1 h2, of "(+)" "[1, 2, 4]"] total h1 h2 prices
  show ?thesis
    by simp
qed

section \<open>The rows of a new show\<close>

text \<open>
  Claim C7: saving a show whose start date is not after its end date adds one show, whose
  \<open>available_seats\<close> is the screen's \<open>total_seat\<close>, and one \<open>BookedShowDetail\<close> row for every day
  from the start date to the end date, in order, each for the new show and each counting the
  screen's \<open>total_seat\<close>.
\<close>

theorem ShowDetailSerializer_save_rows:
  assumes "data_start_date vd \<le> data_end_date vd"
  shows "let db' = ShowDetailSerializer_save db vd;
             created = last (ShowDetail_objects db');
             created_rows = drop (length (BookedShowDetail_objects db)) (BookedShowDetail_objects db')
         in ShowDetail_objects db' = ShowDetail_objects db @ [created]
          \<and> available_seats created = total_seat (data_screen vd)
          \<and> BookedShowDetail_objects db' = BookedShowDetail_objects db @ created_rows
          \<and> map show_date created_rows = [data_start_date vd..data_end_date vd]
          \<and> length created_rows = nat (data_end_date vd - data_start_date vd + 1)
          \<and> created_rows \<noteq> []
          \<and> list_all (\<lambda>r. show_detail r = show_id created
                          \<and> date_available_seats r = total_seat (data_screen vd)) created_rows"
proof -
  define sid where "sid = fresh_id (map show_id (ShowDetail_objects db))"
  define created where "created =
    \<lparr>show_id = sid, movie = data_movie vd, show_screen = screen_id (data_screen vd),
     start_time = data_start_time vd, end_time = data_end_time vd,
     start_date = data_start_date vd, end_date = data_end_date vd,
     available_seats = total_seat (data_screen vd)\<rparr>"
  define db2 where "db2 = fold (ShowSeatPrice_create sid) (data_show_prices vd)
    (db\<lparr>ShowDetail_objects := ShowDetail_objects db @ [created]\<rparr>)"
  define db' where "db' = fold (\<lambda>day. BookedShowDetail_create sid (data_start_date vd + day)
      (total_seat (data_screen vd))) (range (data_end_date vd - data_start_date vd + 1)) db2"
  have save: "ShowDetailSerializer_save db vd = db'"
    by (simp add: ShowDetailSerializer_save_def Let_def db'_def db2_def created_def sid_def)
  have db2: "ShowDetail_objects db2 = ShowDetail_objects db @ [created]"
      "BookedShowDetail_objects db2 = BookedShowDetail_objects db"
    by (simp_all add: db2_def fold_ShowSeatPrice_create_tables)
  from fold_BookedShowDetail_create
    [of sid "data_start_date vd" "total_seat (data_screen vd)"
      "range (data_end_date vd - data_start_date vd + 1)" db2]
  obtain rs where rs:
    "ShowDetail_objects db' = ShowDetail_objects db2"
    "BookedShowDetail_objects db' = BookedShowDetail_objects db2 @ rs"
    "map show_date rs = map (\<lambda>day. data_start_date vd + day)
       (range (data_end_date vd - data_start_date vd + 1))"
    "list_all (\<lambda>r. show_detail r = sid \<and> date_available_seats r = total_seat (data_screen vd)) rs"
    unfolding db'_def by blast
  have dates: "map show_date rs = [data_start_date vd..data_end_date vd]"
    using rs(3) by (simp add: range_def map_add_upto)
  have "length (map show_date rs) = nat (data_end_date vd - data_start_date vd + 1)"
    unfolding dates by simp
  then have len: "length rs = nat (data_end_date vd - data_start_date vd + 1)"
    by simp
  with assms have nonempty: "rs \<noteq> []"
    by auto
  have "show_id created = sid" "available_seats created = total_seat (data_screen vd)"
    by (simp_all add: created_def)
  with rs(1,2,4) db2 dates len nonempty assms show ?thesis
    by (simp add: save Let_def)
qed

text \<open>
  Witness for C7: show 1 of the example, saved into the empty database, runs on the days 10 and
  11 on a screen of three seats.
\<close>

theorem ShowDetailSerializer_save_rows_witness:
  "data_start_date show1_data \<le> data_end_date show1_data
   \<and> map available_seats (ShowDetail_objects (ShowDetailSerializer_save db_empty show1_data)) = [3]
   \<and> map (\<lambda>r. (show_detail r, show_date r, date_available_seats r))
       (BookedShowDetail_objects (ShowDetailSerializer_save db_empty show1_data)) =
       [(1, 10, 3), (1, 11, 3)]
   \<and> map show_date
       (drop (length (BookedShowDetail_objects db_empty))
          (BookedShowDetail_objects (ShowDetailSerializer_save db_empty show1_data))) =
       [data_start_date show1_data..data_end_date show1_data]"
proof -
  have h: "data_start_date show1_data \<le> data_end_date show1_data"
    by code_simp
  have evaluated:
    "map available_seats (ShowDetail_objects (ShowDetailSerializer_save db_empty show1_data)) = [3]"
    "map (\<lambda>r. (show_detail r, show_date r, date_available_seats r))
       (BookedShowDetail_objects (ShowDetailSerializer_save db_empty show1_data)) =
       [(1, 10, 3), (1, 11, 3)]"
    by code_simp+
  from ShowDetailSerializer_save_rows [OF h, of db_empty] h evaluated
  show ?thesis
    by (simp add: Let_def)
qed


section \<open>Further properties\<close>

text \<open>
  What \<^verbatim>\<open>create_screen_with_seats\<close> does establish: the screen's \<open>total_seat\<close> is the sum of
  rows times columns over the seat types, the seats are appended to the table with the positions
  of \<open>layout\<close>, and, for seat types without negative dimensions, the number of new seats is that
  sum and no two of them share a position.
\<close>

theorem create_screen_with_seats_layout:
  assumes "list_all (\<lambda>st. 0 \<le> rows st \<and> 0 \<le> columns st) sts"
  shows "let created = drop (length (Seat_objects db))
                         (Seat_objects (snd (create_screen_with_seats db n sts)))
         in total_seat (fst (create_screen_with_seats db n sts)) = (\<Sum>st \<leftarrow> sts. rows st * columns st)
          \<and> Seat_objects (snd (create_screen_with_seats db n sts)) = Seat_objects db @ created
          \<and> map (\<lambda>x. (row x, col x)) created = layout 1 sts
          \<and> int (length created) = (\<Sum>st \<leftarrow> sts. rows st * columns st)
          \<and> distinct (map (\<lambda>x. (row x, col x)) created)"
proof -
  define screen where "screen =
    \<lparr>screen_id = fresh_id (map screen_id (Screen_objects db)), screen_number = n, total_seat = 0\<rparr>"
  define db1 where "db1 = db\<lparr>Screen_objects := Screen_objects db @ [screen]\<rparr>"
  from seat_types_loop_result [of "screen_id screen" sts db1 1 0]
  obtain db2 new where loop:
    "seat_types_loop (screen_id screen) sts (db1, 1, 0) =
       (db2, 1 + (\<Sum>st \<leftarrow> sts. rows st), 0 + (\<Sum>st \<leftarrow> sts. rows st * columns st))"
    "Seat_objects db2 = Seat_objects db1 @ new"
    "map (\<lambda>x. (row x, col x)) new = layout 1 sts"
    by blast
  have total: "total_seat (fst (create_screen_with_seats db n sts))
      = (\<Sum>st \<leftarrow> sts. rows st * columns st)"
    using loop(1) by (simp add: create_screen_with_seats_def Let_def screen_def db1_def)
  have seats: "Seat_objects (snd (create_screen_with_seats db n sts)) = Seat_objects db @ new"
    using loop(1,2) by (simp add: create_screen_with_seats_def Let_def screen_def db1_def)
  have "length (map (\<lambda>x. (row x, col x)) new) = length (layout 1 sts)"
    by (simp only: loop(3))
  then have len: "int (length new) = (\<Sum>st \<leftarrow> sts. rows st * columns st)"
    using length_layout [OF assms, of 1] by simp
  have "distinct (map (\<lambda>x. (row x, col x)) new)"
    using distinct_layout [OF assms, of 1] by (simp only: loop(3))
  with total seats len loop(3) show ?thesis
    by (simp add: Let_def)
qed

text \<open>Two rows of one PLATINUM seat, then one row of two GOLD seats.\<close>

theorem create_screen_with_seats_layout_witness:
  "list_all (\<lambda>st. 0 \<le> rows st \<and> 0 \<le> columns st)
     [\<lparr>dict_seat_type = ''PLATINUM'', rows = 2, columns = 1, order = 1\<rparr>,
      \<lparr>dict_seat_type = ''GOLD'', rows = 1, columns = 2, order = 2\<rparr>]
   \<and> total_seat (fst (create_screen_with_seats db_empty 1
       [\<lparr>dict_seat_type = ''PLATINUM'', rows = 2, columns = 1, order = 1\<rparr>,
        \<lparr>dict_seat_type = ''GOLD'', rows = 1, columns = 2, order = 2\<rparr>])) = 4
   \<and> map (\<lambda>x. (row x, col x)) (Seat_objects (snd (create_screen_with_seats db_empty 1
       [\<lparr>dict_seat_type = ''PLATINUM'', rows = 2, columns = 1, order = 1\<rparr>,
        \<lparr>dict_seat_type = ''GOLD'', rows = 1, columns = 2, order = 2\<rparr>])))
       = [(2, 1), (3, 1), (6, 1), (6, 2)]
   \<and> distinct (map (\<lambda>x. (row x, col x)) (drop (length (Seat_objects db_empty))
       (Seat_objects (snd (create_screen_with_seats db_empty 1
         [\<lparr>dict_seat_type = ''PLATINUM'', rows = 2, columns = 1, order = 1\<rparr>,
          \<lparr>dict_seat_type = ''GOLD'', rows = 1, columns = 2, order = 2\<rparr>])))))"
proof -
  have h: "list_all (\<lambda>st. 0 \<le> rows st \<and> 0 \<le> columns st)
     [\<lparr>dict_seat_type = ''PLATINUM'', rows = 2, columns = 1, order = 1\<rparr>,
      \<lparr>dict_seat_type = ''GOLD'', rows = 1, columns = 2, order = 2\<rparr>]"
    by simp
  have evaluated:
    "total_seat (fst (create_screen_with_seats db_empty 1
       [\<lparr>dict_seat_type = ''PLATINUM'', rows = 2, columns = 1, order = 1\<rparr>,
        \<lparr>dict_seat_type = ''GOLD'', rows = 1, columns = 2, order = 2\<rparr>])) = 4"
    "map (\<lambda>x. (row x, col x)) (Seat_objects (snd (create_screen_with_seats db_empty 1
       [\<lparr>dict_seat_type = ''PLATINUM'', rows = 2, columns = 1, order = 1\<rparr>,
        \<lparr>dict_seat_type = ''GOLD'', rows = 1, columns = 2, order = 2\<rparr>])))
       = [(2, 1), (3, 1), (6, 1), (6, 2)]"
    by code_simp+
  from create_screen_with_seats_layout [OF h, of db_empty 1, unfolded Let_def] have
    "distinct (map (\<lambda>x. (row x, col x)) (drop (length (Seat_objects db_empty))
       (Seat_objects (snd (create_screen_with_seats db_empty 1
         [\<lparr>dict_seat_type = ''PLATINUM'', rows = 2, columns = 1, order = 1\<rparr>,
          \<lparr>dict_seat_type = ''GOLD'', rows = 1, columns = 2, order = 2\<rparr>])))))"
    by blast
  with h evaluated show ?thesis
    by (intro conjI)
qed

text \<open>
  On a cache miss \<^verbatim>\<open>get_available_seats\<close> returns the stored seats, of whatever screen, whose id
  is not among the seats booked for the show and the date, and leaves that list in the cache: a
  second read at the same instant returns it from there.
\<close>

theorem get_available_seats_on_miss:
  assumes "cache_get (cache db) now (sid, d) = None"
  shows "fst (get_available_seats db now sid d) =
           filter (\<lambda>x. seat_id x \<notin> set (booked_seats db sid d)) (Seat_objects db)
       \<and> cache_get (cache (snd (get_available_seats db now sid d))) now (sid, d) =
           Some (fst (get_available_seats db now sid d))
       \<and> Booking_objects (snd (get_available_seats db now sid d)) = Booking_objects db"
  using assms
  by (simp add: get_available_seats_def Let_def cache_get_def cache_set_def SHOW_CACHE_TIMEOUT_def)

text \<open>
  In the state of the test sequence, one hour after the first read: seat 1 is booked for show 1
  on day 10 and the other three seats are returned.
\<close>

theorem get_available_seats_on_miss_witness:
  "cache_get (cache cinema_stale) day9_one_oclock (1, 10) = None
   \<and> map seat_id (fst (get_available_seats cinema_stale day9_one_oclock 1 10)) = [2, 3, 4]
   \<and> cache_get (cache (snd (get_available_seats cinema_stale day9_one_oclock 1 10)))
        day9_one_oclock (1, 10) =
       Some (fst (get_available_seats cinema_stale day9_one_oclock 1 10))"
proof -
  have h: "cache_get (cache cinema_stale) day9_one_oclock (1, 10) = None"
    by code_simp
  have evaluated: "map seat_id (fst (get_available_seats cinema_stale day9_one_oclock 1 10)) = [2, 3, 4]"
    by code_simp
  from get_available_seats_on_miss [OF h] h evaluated show ?thesis
    by simp
qed


text \<open>
  \<^verbatim>\<open>BookingViewSet.booking\<close> answers every request with an error and creates no booking: the
  seats it validates are \<open>Seat\<close> instances, none of which rule 4 finds among the int ids.
\<close>

theorem booking_never_commits:
  "(\<exists>e. fst (booking fadd db now usr sid data) = Inl e)
   \<and> Booking_objects (snd (booking fadd db now usr sid data)) = Booking_objects db"
  by (simp add: booking_rejected)

end
